theory Spec2Isabelle
  imports Main "HOL-Library.Word" "HOL-Library.Signed_Division"
begin

section \<open>Tokens\<close>

text \<open>
  A token is a type tag and the literal text matched (\<^verbatim>\<open>token.Token\<close>, with the
  fields \<^verbatim>\<open>Type\<close> and \<^verbatim>\<open>Literal\<close> that \<^verbatim>\<open>parser.go\<close> reads). The parser formats
  token types with \<^verbatim>\<open>%s\<close> and uses them as map keys, so a token type is a string.
\<close>

type_synonym TokenType = string

record Token =
  Type :: TokenType
  Literal :: string

text \<open>
  Modelled from the spec: the \<^verbatim>\<open>token\<close> package is absent. The constants below are the
  token types that \<^verbatim>\<open>parser.go\<close> names; the parser only compares them, so all that
  matters is that they are pairwise different. Their texts follow the spec's glossary
  (keyword, literal, operator, delimiter, end-of-input).
\<close>

definition EOF :: TokenType where "EOF = ''EOF''"
definition IDENT :: TokenType where "IDENT = ''IDENT''"
definition INT_tok :: TokenType where "INT_tok = ''INT''"
definition ASSIGN :: TokenType where "ASSIGN = ''=''"
definition PLUS :: TokenType where "PLUS = ''+''"
definition MINUS :: TokenType where "MINUS = ''-''"
definition BANG :: TokenType where "BANG = ''!''"
definition ASTERISK :: TokenType where "ASTERISK = ''*''"
definition SLASH :: TokenType where "SLASH = ''/''"
definition LT :: TokenType where "LT = ''<''"
definition GT :: TokenType where "GT = ''>''"
definition LTE :: TokenType where "LTE = ''<=''"
definition GTE :: TokenType where "GTE = ''>=''"
definition EQ :: TokenType where "EQ = ''==''"
definition NEQ :: TokenType where "NEQ = ''!=''"
definition SEMICOLON :: TokenType where "SEMICOLON = '';''"
definition LPAREN :: TokenType where "LPAREN = ''(''"
definition RPAREN :: TokenType where "RPAREN = '')''"
definition LET :: TokenType where "LET = ''LET''"
definition RETURN :: TokenType where "RETURN = ''RETURN''"
definition TRUE_tok :: TokenType where "TRUE_tok = ''TRUE''"
definition FALSE_tok :: TokenType where "FALSE_tok = ''FALSE''"

lemmas token_defs =
  EOF_def IDENT_def INT_tok_def ASSIGN_def PLUS_def MINUS_def BANG_def ASTERISK_def SLASH_def
  LT_def GT_def LTE_def GTE_def EQ_def NEQ_def SEMICOLON_def LPAREN_def RPAREN_def LET_def
  RETURN_def TRUE_tok_def FALSE_tok_def

section \<open>Syntax tree\<close>

text \<open>
  A value of the interface type \<^verbatim>\<open>ast.Node\<close> (also \<^verbatim>\<open>ast.Statement\<close>,
  \<^verbatim>\<open>ast.Expression\<close>). \<open>NilNode\<close> is the nil interface value: what \<^verbatim>\<open>parseExpression\<close>
  returns after a diagnostic, and what a field nobody assigned holds. \<open>NilLetStatement\<close> is
  the nil pointer of type \<^verbatim>\<open>*ast.LetStatement\<close> stored in an interface, which Go does
  not count as a nil interface. The fields are those \<^verbatim>\<open>parser.go\<close> and \<^verbatim>\<open>evaluator.go\<close>
  read or write, in this order:
  \<^item> \<open>LetStatement Token Name\<close>, \<open>ReturnStatement Token ReturnValue\<close>,
    \<open>ExpressionStatement Token Expression\<close>;
  \<^item> \<open>Identifier Token Value\<close>, \<open>IntLiteral Token Value\<close>, \<open>Boolean_ast Token Value\<close>;
  \<^item> \<open>PrefixExpression Token Operator Right\<close>, \<open>InfixExpression Token Left Operator Right\<close>;
  \<^item> \<open>IfExpression Condition Body Else\<close>; \<open>Program Statements\<close>, \<open>BlockStatement Statements\<close>.
\<close>

datatype Node =
    NilNode
  | NilLetStatement
  | Program "Node list"
  | LetStatement Token Node
  | ReturnStatement Token Node
  | ExpressionStatement Token Node
  | BlockStatement "Node list"
  | Identifier Token string
  | IntLiteral Token "64 word"
  | Boolean_ast Token bool
  | PrefixExpression Token string Node
  | InfixExpression Token Node string Node
  | IfExpression Node Node Node

section \<open>Runtime values\<close>

text \<open>
  A value of the interface type \<^verbatim>\<open>object.Object\<close>. \<open>NilObject\<close> is the nil interface
  value, the zero value of \<^verbatim>\<open>res\<close> that the statement loops return for an empty
  sequence. The evaluator creates Booleans and Null only as the package variables
  \<^verbatim>\<open>TRUE\<close>, \<^verbatim>\<open>FALSE\<close> and \<^verbatim>\<open>NULL\<close>, so \<open>Boolean True\<close>, \<open>Boolean False\<close> and \<open>Null\<close>
  stand for these three pointers.
\<close>

datatype Object =
    NilObject
  | Integer "64 word"
  | Boolean bool
  | Null
  | Error string
  | ReturnValue Object

type_synonym ObjectType = string

text \<open>
  Modelled from the spec: the \<^verbatim>\<open>object\<close> package is absent. The spec gives the tags
  \<^verbatim>\<open>INTEGER\<close> and \<^verbatim>\<open>BOOLEAN\<close> in its error messages; the other three are named alike.
\<close>

definition INTEGER :: ObjectType where "INTEGER = ''INTEGER''"
definition BOOLEAN :: ObjectType where "BOOLEAN = ''BOOLEAN''"
definition NULL_type :: ObjectType where "NULL_type = ''NULL''"
definition ERROR :: ObjectType where "ERROR = ''ERROR''"
definition RETURN_VALUE :: ObjectType where "RETURN_VALUE = ''RETURN_VALUE''"

lemmas object_type_defs = INTEGER_def BOOLEAN_def NULL_type_def ERROR_def RETURN_VALUE_def

text \<open>
  The method \<^verbatim>\<open>Type()\<close>. Calling it on the nil interface is a nil dereference, which
  is \<open>None\<close> here; every caller below turns \<open>None\<close> into a panic.
\<close>

fun Type_obj :: "Object \<Rightarrow> ObjectType option" where
  "Type_obj NilObject = None"
| "Type_obj (Integer v) = Some INTEGER"
| "Type_obj (Boolean b) = Some BOOLEAN"
| "Type_obj Null = Some NULL_type"
| "Type_obj (Error m) = Some ERROR"
| "Type_obj (ReturnValue v) = Some RETURN_VALUE"

text \<open>
  A Go run-time panic: a method call on the nil interface, an integer division by zero, a
  failed type assertion. The evaluator has no \<^verbatim>\<open>recover\<close>, so a panic ends the call.
\<close>

datatype panic = NilDereference | DivideByZero | InterfaceConversion

section \<open>Evaluator\<close>

definition ErrUnsupportedOperatorInfix :: "string \<Rightarrow> string \<Rightarrow> string \<Rightarrow> string" where
  "ErrUnsupportedOperatorInfix l op r = ''unsupported operator: '' @ l @ '' '' @ op @ '' '' @ r"

definition ErrUnsupportedOperatorPrefix :: "string \<Rightarrow> string \<Rightarrow> string" where
  "ErrUnsupportedOperatorPrefix op r = ''unsupported operator: '' @ op @ r"

definition ErrTypeMismatch :: "string \<Rightarrow> string \<Rightarrow> string \<Rightarrow> string" where
  "ErrTypeMismatch l op r = ''type mismatch: '' @ l @ '' '' @ op @ '' '' @ r"

definition newError :: "string \<Rightarrow> Object" where
  "newError msg = Error msg"

definition isError :: "Object \<Rightarrow> bool" where
  "isError obj = (obj \<noteq> NilObject \<and> Type_obj obj = Some ERROR)"

definition nativeBoolToObjBool :: "bool \<Rightarrow> Object" where
  "nativeBoolToObjBool val = (if val then Boolean True else Boolean False)"

text \<open>
  \<^verbatim>\<open>switch obj { case NULL, FALSE: false; case TRUE: true; default: true }\<close>
\<close>

fun isTruthy :: "Object \<Rightarrow> bool" where
  "isTruthy Null = False"
| "isTruthy (Boolean False) = False"
| "isTruthy (Boolean True) = True"
| "isTruthy obj = True"

text \<open>
  \<^verbatim>\<open>left == right\<close> on two interface values compares the pointers they hold. The
  three singletons are equal to themselves only. Every Integer, Error and ReturnValue is
  allocated by the evaluation that produces it, and the two operands of an infix
  expression come from two evaluations, so two such operands are never the same pointer.
\<close>

fun samePointer :: "Object \<Rightarrow> Object \<Rightarrow> bool" where
  "samePointer NilObject NilObject = True"
| "samePointer (Boolean a) (Boolean b) = (a = b)"
| "samePointer Null Null = True"
| "samePointer l r = False"

text \<open>
  Go's \<^verbatim>\<open>/\<close> on \<^verbatim>\<open>int64\<close> panics on a zero divisor and otherwise truncates towards
  zero, the quotient wrapping into 64 bits; \<^verbatim>\<open>*\<close>, \<^verbatim>\<open>+\<close> and \<^verbatim>\<open>-\<close> wrap. The
  comparisons are signed. The two type assertions at the head of the function panic on an
  operand that is not an Integer; the only caller passes two Integers.
\<close>

fun evalIntegerInfixExpression :: "string \<Rightarrow> Object \<Rightarrow> Object \<Rightarrow> panic + Object" where
  "evalIntegerInfixExpression op (Integer leftInt) (Integer rightInt) =
     (if op = ''*'' then Inr (Integer (leftInt * rightInt))
      else if op = ''/'' then
        (if rightInt = 0 then Inl DivideByZero
         else Inr (Integer (word_of_int (sint leftInt sdiv sint rightInt))))
      else if op = ''+'' then Inr (Integer (leftInt + rightInt))
      else if op = ''-'' then Inr (Integer (leftInt - rightInt))
      else if op = ''<'' then Inr (nativeBoolToObjBool (sint leftInt < sint rightInt))
      else if op = ''<='' then Inr (nativeBoolToObjBool (sint leftInt \<le> sint rightInt))
      else if op = ''>'' then Inr (nativeBoolToObjBool (sint leftInt > sint rightInt))
      else if op = ''>='' then Inr (nativeBoolToObjBool (sint leftInt \<ge> sint rightInt))
      else if op = ''=='' then Inr (nativeBoolToObjBool (leftInt = rightInt))
      else if op = ''!='' then Inr (nativeBoolToObjBool (leftInt \<noteq> rightInt))
      else Inr (newError (ErrUnsupportedOperatorInfix INTEGER op INTEGER)))"
| "evalIntegerInfixExpression op left right = Inl InterfaceConversion"

text \<open>
  The \<^verbatim>\<open>switch\<close> of \<^verbatim>\<open>evalInfixExpression\<close>, case by case. \<^verbatim>\<open>left.Type()\<close> is called
  first and panics on nil; \<^verbatim>\<open>right.Type()\<close> is called in the first case only when the
  left operand is an Integer (\<^verbatim>\<open>&&\<close>), and again in the fourth case.
\<close>

definition evalInfixExpression :: "string \<Rightarrow> Object \<Rightarrow> Object \<Rightarrow> panic + Object" where
  "evalInfixExpression op left right =
     (case Type_obj left of
        None \<Rightarrow> Inl NilDereference
      | Some lt \<Rightarrow>
          if lt = INTEGER \<and> Type_obj right = None then Inl NilDereference
          else if lt = INTEGER \<and> Type_obj right = Some INTEGER
            then evalIntegerInfixExpression op left right
          else if op = ''=='' then Inr (nativeBoolToObjBool (samePointer left right))
          else if op = ''!='' then Inr (nativeBoolToObjBool (\<not> samePointer left right))
          else (case Type_obj right of
                  None \<Rightarrow> Inl NilDereference
                | Some rt \<Rightarrow>
                    if lt \<noteq> rt then Inr (newError (ErrTypeMismatch lt op rt))
                    else Inr (newError (ErrUnsupportedOperatorInfix lt op rt))))"

text \<open>The type switch: Boolean, Integer, and a default that also takes the nil interface.\<close>

fun evalBangOperatorExpression :: "Object \<Rightarrow> Object" where
  "evalBangOperatorExpression (Boolean v) = nativeBoolToObjBool (\<not> v)"
| "evalBangOperatorExpression (Integer v) = (if v = 0 then Boolean True else Boolean False)"
| "evalBangOperatorExpression right = Boolean False"

text \<open>
  The Integer is negated in place and returned; no other reference to it exists, so the
  model returns the negated value. On any other operand the message needs
  \<^verbatim>\<open>right.Type()\<close>, which panics on the nil interface.
\<close>

fun evalMinusPrefixOperatorExpression :: "Object \<Rightarrow> panic + Object" where
  "evalMinusPrefixOperatorExpression (Integer v) = Inr (Integer (- v))"
| "evalMinusPrefixOperatorExpression right =
     (case Type_obj right of
        None \<Rightarrow> Inl NilDereference
      | Some rt \<Rightarrow> Inr (newError (ErrUnsupportedOperatorPrefix ''-'' rt)))"

definition evalPrefixExpression :: "string \<Rightarrow> Object \<Rightarrow> panic + Object" where
  "evalPrefixExpression op right =
     (if op = ''!'' then Inr (evalBangOperatorExpression right)
      else if op = ''-'' then evalMinusPrefixOperatorExpression right
      else (case Type_obj right of
              None \<Rightarrow> Inl NilDereference
            | Some rt \<Rightarrow> Inr (newError (ErrUnsupportedOperatorPrefix op rt))))"

text \<open>
  \<^verbatim>\<open>Eval\<close> and the functions it calls back from. The two statement loops carry
  \<^verbatim>\<open>res\<close>, the named result, which starts as the nil interface. \<^verbatim>\<open>evalIfExpression\<close>
  is the \<open>IfExpression\<close> equation of \<open>Eval\<close>.
\<close>

fun Eval :: "Node \<Rightarrow> panic + Object"
  and evalProgram :: "Node list \<Rightarrow> Object \<Rightarrow> panic + Object"
  and evalBlockStatements :: "Node list \<Rightarrow> Object \<Rightarrow> panic + Object"
where
  "Eval (Program stmts) = evalProgram stmts NilObject"
| "Eval (ExpressionStatement t e) = Eval e"
| "Eval (BlockStatement stmts) = evalBlockStatements stmts NilObject"
| "Eval (ReturnStatement t e) =
     (case Eval e of
        Inl p \<Rightarrow> Inl p
      | Inr val \<Rightarrow> if isError val then Inr val else Inr (ReturnValue val))"
| "Eval (IntLiteral t v) = Inr (Integer v)"
| "Eval (Boolean_ast t v) = Inr (nativeBoolToObjBool v)"
| "Eval (PrefixExpression t op e) =
     (case Eval e of
        Inl p \<Rightarrow> Inl p
      | Inr right \<Rightarrow> if isError right then Inr right else evalPrefixExpression op right)"
| "Eval (InfixExpression t l op r) =
     (case Eval l of
        Inl p \<Rightarrow> Inl p
      | Inr left \<Rightarrow>
          if isError left then Inr left
          else (case Eval r of
                  Inl p \<Rightarrow> Inl p
                | Inr right \<Rightarrow>
                    if isError right then Inr right
                    else evalInfixExpression op left right))"
| "Eval (IfExpression c body els) =
     (case Eval c of
        Inl p \<Rightarrow> Inl p
      | Inr cond \<Rightarrow>
          if isError cond then Inr cond
          else if isTruthy cond then Eval body
          else (case els of
                  NilNode \<Rightarrow> Inr Null
                | BlockStatement stmts \<Rightarrow> Eval els
                | IfExpression c' body' els' \<Rightarrow> Eval els
                | _ \<Rightarrow> Inr Null))"
| "Eval NilNode = Inr Null"
| "Eval NilLetStatement = Inr Null"
| "Eval (LetStatement t n) = Inr Null"
| "Eval (Identifier t v) = Inr Null"
| "evalProgram [] res = Inr res"
| "evalProgram (s # stmts) res =
     (case Eval s of
        Inl p \<Rightarrow> Inl p
      | Inr res' \<Rightarrow>
          (case res' of
             Error m \<Rightarrow> Inr res'
           | ReturnValue v \<Rightarrow> Inr v
           | _ \<Rightarrow> evalProgram stmts res'))"
| "evalBlockStatements [] res = Inr res"
| "evalBlockStatements (s # stmts) res =
     (case Eval s of
        Inl p \<Rightarrow> Inl p
      | Inr res' \<Rightarrow>
          (case res' of
             Error m \<Rightarrow> Inr res'
           | ReturnValue v \<Rightarrow> Inr res'
           | _ \<Rightarrow> evalBlockStatements stmts res'))"

section \<open>Token source\<close>

text \<open>
  Modelled from the spec: the \<^verbatim>\<open>lexer\<close> package is absent. The spec's token source
  yields the next token on demand and, from the end of the input on, the end-of-input
  token: here the tokens still to come are a list, and \<open>NextToken\<close> on the empty list
  yields an \<open>EOF\<close> token and leaves the list empty.
\<close>

type_synonym Lexer = "Token list"

definition NextToken :: "Lexer \<Rightarrow> Token \<times> Lexer" where
  "NextToken ts = (case ts of [] \<Rightarrow> (\<lparr>Type = EOF, Literal = []\<rparr>, []) | t # ts' \<Rightarrow> (t, ts'))"

section \<open>Parser\<close>

text \<open>
  The parser's state. The field \<^verbatim>\<open>l\<close> of the source is \<open>lexer\<close> here. The two handler
  tables are filled once by \<^verbatim>\<open>New\<close> and never change, so they are constants below.
\<close>

record Parser =
  lexer :: Lexer
  curTok :: Token
  peekTok :: Token
  errors :: "string list"

type_synonym precedence = nat

definition LOWEST :: precedence where "LOWEST = 1"
definition EQUALS :: precedence where "EQUALS = 2"
definition LESSGREATER :: precedence where "LESSGREATER = 3"
definition SUM_prec :: precedence where "SUM_prec = 4"
definition PRODUCT :: precedence where "PRODUCT = 5"
definition PREFIX :: precedence where "PREFIX = 6"
definition CALL :: precedence where "CALL = 7"

lemmas precedence_defs =
  LOWEST_def EQUALS_def LESSGREATER_def SUM_prec_def PRODUCT_def PREFIX_def CALL_def

definition nextToken :: "Parser \<Rightarrow> Parser" where
  "nextToken p =
     (case NextToken (lexer p) of
        (t, rest) \<Rightarrow> p\<lparr>curTok := peekTok p, peekTok := t, lexer := rest\<rparr>)"

text \<open>\<^verbatim>\<open>New\<close> starts from the zero value of both tokens and advances twice.\<close>

definition New :: "Lexer \<Rightarrow> Parser" where
  "New ts =
     nextToken (nextToken
       \<lparr>lexer = ts, curTok = \<lparr>Type = [], Literal = []\<rparr>,
        peekTok = \<lparr>Type = [], Literal = []\<rparr>, errors = []\<rparr>)"

definition Errs :: "Parser \<Rightarrow> string list" where
  "Errs p = errors p"

text \<open>The handlers that \<^verbatim>\<open>New\<close> registers, by name.\<close>

datatype prefixParseFn =
    fn_parseIdentifier
  | fn_parseIntLiteral
  | fn_parseBoolean
  | fn_parsePrefixExpression
  | fn_parseGroupedExpression

datatype infixParseFn = fn_parseInfixExpression

definition prefixParseFns :: "TokenType \<rightharpoonup> prefixParseFn" where
  "prefixParseFns =
     [IDENT \<mapsto> fn_parseIdentifier,
      INT_tok \<mapsto> fn_parseIntLiteral,
      TRUE_tok \<mapsto> fn_parseBoolean,
      FALSE_tok \<mapsto> fn_parseBoolean,
      BANG \<mapsto> fn_parsePrefixExpression,
      MINUS \<mapsto> fn_parsePrefixExpression,
      LPAREN \<mapsto> fn_parseGroupedExpression]"

definition infixParseFns :: "TokenType \<rightharpoonup> infixParseFn" where
  "infixParseFns =
     [EQ \<mapsto> fn_parseInfixExpression,
      NEQ \<mapsto> fn_parseInfixExpression,
      LT \<mapsto> fn_parseInfixExpression,
      GT \<mapsto> fn_parseInfixExpression,
      LTE \<mapsto> fn_parseInfixExpression,
      GTE \<mapsto> fn_parseInfixExpression,
      PLUS \<mapsto> fn_parseInfixExpression,
      MINUS \<mapsto> fn_parseInfixExpression,
      ASTERISK \<mapsto> fn_parseInfixExpression,
      SLASH \<mapsto> fn_parseInfixExpression]"

definition getPrecedence :: "TokenType \<Rightarrow> precedence" where
  "getPrecedence t =
     (if t = EQ \<or> t = NEQ then EQUALS
      else if t = LT \<or> t = GT \<or> t = LTE \<or> t = GTE then LESSGREATER
      else if t = PLUS \<or> t = MINUS then SUM_prec
      else if t = ASTERISK \<or> t = SLASH then PRODUCT
      else LOWEST)"

definition curPrecedence :: "Parser \<Rightarrow> precedence" where
  "curPrecedence p = getPrecedence (Type (curTok p))"

definition peekPrecedence :: "Parser \<Rightarrow> precedence" where
  "peekPrecedence p = getPrecedence (Type (peekTok p))"

definition curTokenIs :: "Parser \<Rightarrow> TokenType \<Rightarrow> bool" where
  "curTokenIs p t = (Type (curTok p) = t)"

definition peekTokenIs :: "Parser \<Rightarrow> TokenType \<Rightarrow> bool" where
  "peekTokenIs p t = (Type (peekTok p) = t)"

definition peekErr :: "TokenType \<Rightarrow> Parser \<Rightarrow> Parser" where
  "peekErr t p =
     p\<lparr>errors := errors p @
        [''expected next token to be '' @ t @ '', got '' @ Type (peekTok p) @ '' instead'']\<rparr>"

definition expectPeek :: "TokenType \<Rightarrow> Parser \<Rightarrow> bool \<times> Parser" where
  "expectPeek t p = (if peekTokenIs p t then (True, nextToken p) else (False, peekErr t p))"

definition noPrefixParseFnErr :: "TokenType \<Rightarrow> Parser \<Rightarrow> Parser" where
  "noPrefixParseFnErr t p =
     p\<lparr>errors := errors p @ [''no prefix parse function found for '' @ t]\<rparr>"

definition parseIdentifier :: "Parser \<Rightarrow> Node \<times> Parser" where
  "parseIdentifier p = (Identifier (curTok p) (Literal (curTok p)), p)"

text \<open>
  \<^verbatim>\<open>strconv.ParseInt(s, 0, 64)\<close> belongs to Go's library, not to this repository: the
  parser takes it as the parameter \<open>atoi\<close>, with \<open>atoi s = Some v\<close> when the call returns
  \<open>v\<close> and a nil error, and \<open>None\<close> when it returns an error. \<^verbatim>\<open>%q\<close> puts the literal
  between double quotes (and escapes what the text of an integer literal does not contain).
\<close>

type_synonym ParseInt = "string \<Rightarrow> 64 word option"

definition parseIntLiteral :: "ParseInt \<Rightarrow> Parser \<Rightarrow> Node \<times> Parser" where
  "parseIntLiteral atoi p =
     (case atoi (Literal (curTok p)) of
        None \<Rightarrow>
          (NilNode,
           p\<lparr>errors := errors p @
              [''could not parse '' @ [CHR 0x22] @ Literal (curTok p) @ [CHR 0x22] @
               '' as integer'']\<rparr>)
      | Some v \<Rightarrow> (IntLiteral (curTok p) v, p))"

definition parseBoolean :: "Parser \<Rightarrow> Node \<times> Parser" where
  "parseBoolean p = (Boolean_ast (curTok p) (curTokenIs p TRUE_tok), p)"

text \<open>
  The expression parser. Its functions call each other, so they are defined together, with
  a first argument that bounds the number of nested calls and loop rounds: \<open>None\<close> says
  that the bound was too small, \<open>Some\<close> gives the expression (\<open>NilNode\<close> for Go's nil) and
  the parser's state afterwards. \<open>parseExpression_loop\<close> is the \<^verbatim>\<open>for\<close> loop of
  \<^verbatim>\<open>parseExpression\<close>, and \<open>prefixFn\<close> and \<open>infixFn\<close> are the calls through the tables.
\<close>

function (sequential) parseExpression :: "nat \<Rightarrow> ParseInt \<Rightarrow> precedence \<Rightarrow> Parser \<Rightarrow> (Node \<times> Parser) option"
  and parseExpression_loop ::
    "nat \<Rightarrow> ParseInt \<Rightarrow> precedence \<Rightarrow> Node \<Rightarrow> Parser \<Rightarrow> (Node \<times> Parser) option"
  and prefixFn :: "nat \<Rightarrow> ParseInt \<Rightarrow> prefixParseFn \<Rightarrow> Parser \<Rightarrow> (Node \<times> Parser) option"
  and infixFn :: "nat \<Rightarrow> ParseInt \<Rightarrow> infixParseFn \<Rightarrow> Node \<Rightarrow> Parser \<Rightarrow> (Node \<times> Parser) option"
  and parseGroupedExpression :: "nat \<Rightarrow> ParseInt \<Rightarrow> Parser \<Rightarrow> (Node \<times> Parser) option"
  and parsePrefixExpression :: "nat \<Rightarrow> ParseInt \<Rightarrow> Parser \<Rightarrow> (Node \<times> Parser) option"
  and parseInfixExpression :: "nat \<Rightarrow> ParseInt \<Rightarrow> Node \<Rightarrow> Parser \<Rightarrow> (Node \<times> Parser) option"
where
  "parseExpression 0 atoi pr p = None"
| "parseExpression (Suc n) atoi pr p =
     (case prefixParseFns (Type (curTok p)) of
        None \<Rightarrow> Some (NilNode, noPrefixParseFnErr (Type (curTok p)) p)
      | Some fn \<Rightarrow>
          (case prefixFn n atoi fn p of
             None \<Rightarrow> None
           | Some (leftExpr, p') \<Rightarrow> parseExpression_loop n atoi pr leftExpr p'))"
| "parseExpression_loop 0 atoi pr leftExpr p = None"
| "parseExpression_loop (Suc n) atoi pr leftExpr p =
     (if \<not> peekTokenIs p SEMICOLON \<and> pr < peekPrecedence p then
        (case infixParseFns (Type (peekTok p)) of
           None \<Rightarrow> Some (leftExpr, p)
         | Some fn \<Rightarrow>
             (case infixFn n atoi fn leftExpr (nextToken p) of
                None \<Rightarrow> None
              | Some (leftExpr', p') \<Rightarrow> parseExpression_loop n atoi pr leftExpr' p'))
      else Some (leftExpr, p))"
| "prefixFn n atoi fn_parseIdentifier p = Some (parseIdentifier p)"
| "prefixFn n atoi fn_parseIntLiteral p = Some (parseIntLiteral atoi p)"
| "prefixFn n atoi fn_parseBoolean p = Some (parseBoolean p)"
| "prefixFn n atoi fn_parsePrefixExpression p = parsePrefixExpression n atoi p"
| "prefixFn n atoi fn_parseGroupedExpression p = parseGroupedExpression n atoi p"
| "infixFn n atoi fn_parseInfixExpression left p = parseInfixExpression n atoi left p"
| "parseGroupedExpression n atoi p =
     (case parseExpression n atoi LOWEST (nextToken p) of
        None \<Rightarrow> None
      | Some (expr, p') \<Rightarrow>
          (case expectPeek RPAREN p' of
             (False, p'') \<Rightarrow> Some (NilNode, p'')
           | (True, p'') \<Rightarrow> Some (expr, p'')))"
| "parsePrefixExpression n atoi p =
     (case parseExpression n atoi PREFIX (nextToken p) of
        None \<Rightarrow> None
      | Some (right, p') \<Rightarrow>
          Some (PrefixExpression (curTok p) (Literal (curTok p)) right, p'))"
| "parseInfixExpression n atoi left p =
     (let pre = curPrecedence p in
      case parseExpression n atoi pre (nextToken p) of
        None \<Rightarrow> None
      | Some (right, p') \<Rightarrow>
          Some (InfixExpression (curTok p) left (Literal (curTok p)) right, p'))"
  by pat_completeness auto

text \<open>
  Every call lowers three times the bound plus the caller's rank: 0 for
  \<open>parseExpression\<close> and its loop, 1 for the three handlers, 2 for the two table calls.
\<close>

termination
  by (relation "measure
        (case_sum
          (case_sum (\<lambda>(n, r). 3 * n)
            (case_sum (\<lambda>(n, r). 3 * n) (\<lambda>(n, r). 3 * n + 2)))
          (case_sum
            (case_sum (\<lambda>(n, r). 3 * n + 2) (\<lambda>(n, r). 3 * n + 1))
            (case_sum (\<lambda>(n, r). 3 * n + 1) (\<lambda>(n, r). 3 * n + 1))))")
    auto

text \<open>
  \<^verbatim>\<open>for !p.curTokenIs(token.SEMICOLON) { p.nextToken() }\<close>, the loop that ends
  \<^verbatim>\<open>parseLetStatement\<close> and \<^verbatim>\<open>parseReturnStatement\<close>, bounded in the same way.
\<close>

fun skipToSemicolon :: "nat \<Rightarrow> Parser \<Rightarrow> Parser option" where
  "skipToSemicolon 0 p = None"
| "skipToSemicolon (Suc n) p =
     (if \<not> curTokenIs p SEMICOLON then skipToSemicolon n (nextToken p) else Some p)"

text \<open>
  \<^verbatim>\<open>parseLetStatement\<close> returns a pointer \<^verbatim>\<open>*ast.LetStatement\<close>: \<open>None\<close> in the first
  component is the nil pointer of its two early returns.
\<close>

definition parseLetStatement :: "nat \<Rightarrow> Parser \<Rightarrow> (Node option \<times> Parser) option" where
  "parseLetStatement n p =
     (case expectPeek IDENT p of
        (False, p1) \<Rightarrow> Some (None, p1)
      | (True, p1) \<Rightarrow>
          (case expectPeek ASSIGN p1 of
             (False, p2) \<Rightarrow> Some (None, p2)
           | (True, p2) \<Rightarrow>
               (case skipToSemicolon n p2 of
                  None \<Rightarrow> None
                | Some p3 \<Rightarrow>
                    Some (Some (LetStatement (curTok p)
                                  (Identifier (curTok p1) (Literal (curTok p1)))), p3))))"

text \<open>The field \<^verbatim>\<open>ReturnValue\<close> is never assigned and stays the nil interface.\<close>

definition parseReturnStatement :: "nat \<Rightarrow> Parser \<Rightarrow> (Node \<times> Parser) option" where
  "parseReturnStatement n p =
     (case skipToSemicolon n (nextToken p) of
        None \<Rightarrow> None
      | Some p' \<Rightarrow> Some (ReturnStatement (curTok p) NilNode, p'))"

definition parseExpressionStatement ::
  "nat \<Rightarrow> ParseInt \<Rightarrow> Parser \<Rightarrow> (Node \<times> Parser) option" where
  "parseExpressionStatement n atoi p =
     (case parseExpression n atoi LOWEST p of
        None \<Rightarrow> None
      | Some (expr, p') \<Rightarrow>
          Some (ExpressionStatement (curTok p) expr,
                if peekTokenIs p' SEMICOLON then nextToken p' else p'))"

text \<open>
  \<^verbatim>\<open>parseStatement\<close> returns the interface \<^verbatim>\<open>ast.Statement\<close>. Go converts the pointer
  that \<^verbatim>\<open>parseLetStatement\<close> returns into an interface value that holds the pointer's
  type, so a nil pointer becomes \<open>NilLetStatement\<close>, which is not the nil interface.
\<close>

definition parseStatement :: "nat \<Rightarrow> ParseInt \<Rightarrow> Parser \<Rightarrow> (Node \<times> Parser) option" where
  "parseStatement n atoi p =
     (if Type (curTok p) = LET then
        (case parseLetStatement n p of
           None \<Rightarrow> None
         | Some (None, p') \<Rightarrow> Some (NilLetStatement, p')
         | Some (Some stmt, p') \<Rightarrow> Some (stmt, p'))
      else if Type (curTok p) = RETURN then parseReturnStatement n p
      else parseExpressionStatement n atoi p)"

text \<open>
  The loop of \<^verbatim>\<open>Parse\<close>, with the statements collected so far; \<^verbatim>\<open>stmt != nil\<close>
  compares with the nil interface.
\<close>

fun Parse_loop :: "nat \<Rightarrow> ParseInt \<Rightarrow> Node list \<Rightarrow> Parser \<Rightarrow> (Node \<times> Parser) option" where
  "Parse_loop 0 atoi stmts p = None"
| "Parse_loop (Suc n) atoi stmts p =
     (if \<not> curTokenIs p EOF then
        (case parseStatement n atoi p of
           None \<Rightarrow> None
         | Some (stmt, p') \<Rightarrow>
             Parse_loop n atoi (if stmt \<noteq> NilNode then stmts @ [stmt] else stmts)
               (nextToken p'))
      else Some (Program stmts, p))"

definition Parse :: "nat \<Rightarrow> ParseInt \<Rightarrow> Parser \<Rightarrow> (Node \<times> Parser) option" where
  "Parse n atoi p = Parse_loop n atoi [] p"

section \<open>Notions used to state the properties\<close>

text \<open>A token given by its type and its text.\<close>

definition tok :: "TokenType \<Rightarrow> string \<Rightarrow> Token" where
  "tok t s = \<lparr>Type = t, Literal = s\<rparr>"

text \<open>
  A reader of plain decimal literals, to have one concrete \<open>ParseInt\<close> at hand: a
  non-empty string of digits that denotes a number below \<open>2 ^ 63\<close>.
\<close>

definition decimal :: ParseInt where
  "decimal s =
     (if s \<noteq> [] \<and> (\<forall>c \<in> set s. 48 \<le> (of_char c :: int) \<and> (of_char c :: int) \<le> 57) then
        (let n = foldl (\<lambda>a c. 10 * a + (of_char c - 48)) (0::int) s
         in if n < 2 ^ 63 then Some (word_of_int n) else None)
      else None)"

text \<open>
  A statement's result lets a statement loop go on: it is a value that is neither an Error
  nor a ReturnValue (and not a panic).
\<close>

fun passes :: "panic + Object \<Rightarrow> bool" where
  "passes (Inl p) = False"
| "passes (Inr (Error m)) = False"
| "passes (Inr (ReturnValue v)) = False"
| "passes (Inr obj) = True"

text \<open>
  The spec's words for the arithmetic: the quotient of two integers truncated towards
  zero, and a mathematical integer wrapped into the signed 64-bit range.
\<close>

definition truncating_quotient :: "int \<Rightarrow> int \<Rightarrow> int" where
  "truncating_quotient a b = sgn a * sgn b * (\<bar>a\<bar> div \<bar>b\<bar>)"

definition wrap64 :: "int \<Rightarrow> int" where
  "wrap64 k = (k + 2 ^ 63) mod 2 ^ 64 - 2 ^ 63"

section \<open>Auxiliary facts\<close>

lemmas eval_defs = evalInfixExpression_def evalPrefixExpression_def isError_def
  nativeBoolToObjBool_def newError_def ErrTypeMismatch_def ErrUnsupportedOperatorInfix_def
  ErrUnsupportedOperatorPrefix_def object_type_defs

lemmas parser_defs = Parse_def New_def nextToken_def NextToken_def parseStatement_def
  parseExpressionStatement_def parseLetStatement_def parseReturnStatement_def
  curTokenIs_def peekTokenIs_def peekPrecedence_def curPrecedence_def getPrecedence_def
  prefixParseFns_def infixParseFns_def parseIntLiteral_def parseIdentifier_def parseBoolean_def
  expectPeek_def peekErr_def noPrefixParseFnErr_def tok_def token_defs precedence_defs Errs_def

subsection \<open>Identity and type tags\<close>

lemma samePointer_Type: "samePointer l r \<Longrightarrow> Type_obj l = Type_obj r"
  by (cases l; cases r; simp)

lemma evalInfixExpression_mismatch:
  "Type_obj l = Some lt \<Longrightarrow> Type_obj r = Some rt \<Longrightarrow> lt \<noteq> rt \<Longrightarrow>
   op \<noteq> ''=='' \<Longrightarrow> op \<noteq> ''!='' \<Longrightarrow>
   evalInfixExpression op l r = Inr (Error (''type mismatch: '' @ lt @ '' '' @ op @ '' '' @ rt))"
  by (auto simp: evalInfixExpression_def newError_def ErrTypeMismatch_def)

lemma evalInfixExpression_equality_mixed:
  "Type_obj l = Some lt \<Longrightarrow> Type_obj r = Some rt \<Longrightarrow> lt \<noteq> rt \<Longrightarrow>
   evalInfixExpression ''=='' l r = Inr (Boolean False) \<and>
   evalInfixExpression ''!='' l r = Inr (Boolean True)"
  using samePointer_Type[of l r]
  by (auto simp: evalInfixExpression_def nativeBoolToObjBool_def)

lemma evalInfixExpression_Integer:
  "evalInfixExpression op (Integer a) (Integer b) =
   evalIntegerInfixExpression op (Integer a) (Integer b)"
  by (simp add: evalInfixExpression_def)

subsection \<open>Signed 64-bit arithmetic\<close>

lemma sint_word_of_int_wrap64: "sint (word_of_int k :: 64 word) = wrap64 k"
  by (simp add: wrap64_def sint_sbintrunc' signed_take_bit_eq_take_bit_shift take_bit_eq_mod)

lemma wrap64_id: "- (2 ^ 63) \<le> k \<Longrightarrow> k < 2 ^ 63 \<Longrightarrow> wrap64 k = k"
  by (simp add: wrap64_def)

lemma sint64_range: "- (2 ^ 63) \<le> sint (a :: 64 word) \<and> sint a < 2 ^ 63"
  using sint_ge[of a] sint_lt[of a] by simp

lemma sint_arith:
  "sint (a * b :: 64 word) = wrap64 (sint a * sint b)"
  "sint (a + b :: 64 word) = wrap64 (sint a + sint b)"
  "sint (a - b :: 64 word) = wrap64 (sint a - sint b)"
  "sint (- a :: 64 word) = wrap64 (- sint a)"
proof -
  have m: "a * b = word_of_int (sint a * sint b)" by simp
  have p: "a + b = word_of_int (sint a + sint b)" by simp
  have d: "a - b = word_of_int (sint a - sint b)" by simp
  have n: "- a = word_of_int (- sint a)" by simp
  show "sint (a * b :: 64 word) = wrap64 (sint a * sint b)"
    by (subst m) (rule sint_word_of_int_wrap64)
  show "sint (a + b :: 64 word) = wrap64 (sint a + sint b)"
    by (subst p) (rule sint_word_of_int_wrap64)
  show "sint (a - b :: 64 word) = wrap64 (sint a - sint b)"
    by (subst d) (rule sint_word_of_int_wrap64)
  show "sint (- a :: 64 word) = wrap64 (- sint a)"
    by (subst n) (rule sint_word_of_int_wrap64)
qed

lemma div_pos_le: "0 \<le> (a::int) \<Longrightarrow> 0 < b \<Longrightarrow> 0 \<le> a div b \<and> a div b \<le> a"
  by (metis div_0 div_by_1 int_one_le_iff_zero_less zdiv_mono1 zdiv_mono2 zero_less_one)

lemma div_below_top:
  assumes a: "0 \<le> (a::int)" and b: "2 \<le> b" and le: "a \<le> 2 ^ 63"
  shows "a div b < 2 ^ 63"
proof (cases "a = 0")
  case True
  then show ?thesis by simp
next
  case False
  with a b have "a div b < a" by (intro int_div_less_self) auto
  with le show ?thesis by linarith
qed

text \<open>
  The truncated quotient of two signed 64-bit values fits into 64 bits, the one
  overflowing pair apart.
\<close>

lemma truncating_quotient_bounds:
  assumes x: "- (2 ^ 63) \<le> x" "x < 2 ^ 63" and y: "- (2 ^ 63) \<le> y" "y < 2 ^ 63" "y \<noteq> 0"
    and ov: "\<not> (x = - (2 ^ 63) \<and> y = - 1)"
  shows "- (2 ^ 63) \<le> truncating_quotient x y \<and> truncating_quotient x y < (2 ^ 63 :: int)"
proof -
  have ax: "0 \<le> \<bar>x\<bar>" "\<bar>x\<bar> \<le> 2 ^ 63" using x by auto
  have ay: "0 < \<bar>y\<bar>" using y by auto
  define q where "q = \<bar>x\<bar> div \<bar>y\<bar>"
  have q: "0 \<le> q" "q \<le> \<bar>x\<bar>" using div_pos_le[OF ax(1) ay] by (auto simp: q_def)
  have tq: "truncating_quotient x y = sgn x * sgn y * q"
    by (simp add: truncating_quotient_def q_def)
  consider (pos) "sgn x * sgn y = 1" | (neg) "sgn x * sgn y = - 1" | (zero) "sgn x * sgn y = 0"
    by (cases "x < 0"; cases "x = 0"; cases "y < 0"; cases "y = 0"; simp)
  then show ?thesis
  proof cases
    case neg
    with tq q ax show ?thesis by simp
  next
    case zero
    with tq show ?thesis by simp
  next
    case pos
    have "q < 2 ^ 63"
    proof (cases "\<bar>y\<bar> = 1")
      case True
      then have qx: "q = \<bar>x\<bar>" by (simp add: q_def)
      show ?thesis
      proof (cases "x = - (2 ^ 63)")
        case True
        with ov have "y \<noteq> - 1" by simp
        with \<open>\<bar>y\<bar> = 1\<close> have "y = 1" by linarith
        with True pos show ?thesis by simp
      next
        case False
        with x qx show ?thesis by linarith
      qed
    next
      case False
      with ay have "2 \<le> \<bar>y\<bar>" by linarith
      from div_below_top[OF ax(1) this ax(2)] show ?thesis by (simp add: q_def)
    qed
    with tq pos q show ?thesis by simp
  qed
qed

lemma quotient_exact:
  assumes "b \<noteq> 0" "\<not> (a = - (2 ^ 63) \<and> b = - 1)"
  shows "sint (word_of_int (sint a sdiv sint b) :: 64 word) =
         truncating_quotient (sint (a :: 64 word)) (sint (b :: 64 word))"
proof -
  have b0: "sint b \<noteq> 0" using assms(1) by (simp add: signed_eq_0_iff)
  have "\<not> (sint a = - (2 ^ 63) \<and> sint b = - 1)"
  proof
    assume h: "sint a = - (2 ^ 63) \<and> sint b = - 1"
    then have "word_of_int (sint a) = (word_of_int (- (2 ^ 63)) :: 64 word)"
      and "word_of_int (sint b) = (word_of_int (- 1) :: 64 word)" by simp_all
    then have "a = - (2 ^ 63)" "b = - 1" by simp_all
    with assms(2) show False by simp
  qed
  from truncating_quotient_bounds[OF conjunct1[OF sint64_range] conjunct2[OF sint64_range]
      conjunct1[OF sint64_range] conjunct2[OF sint64_range] b0 this]
  have w: "wrap64 (truncating_quotient (sint a) (sint b)) = truncating_quotient (sint a) (sint b)"
    by (intro wrap64_id) auto
  have "sint a sdiv sint b = truncating_quotient (sint a) (sint b)"
    by (simp add: truncating_quotient_def signed_divide_int_def)
  with w show ?thesis
    by (simp only: sint_word_of_int_wrap64)
qed

subsection \<open>Statement loops\<close>

lemma passes_evalProgram:
  "passes (Eval x) \<Longrightarrow> \<exists>res'. evalProgram (x # xs) res = evalProgram xs res'"
  by (cases "Eval x"; simp; cases "projr (Eval x)"; auto)

lemma passes_evalBlockStatements:
  "passes (Eval x) \<Longrightarrow> \<exists>res'. evalBlockStatements (x # xs) res = evalBlockStatements xs res'"
  by (cases "Eval x"; simp; cases "projr (Eval x)"; auto)

lemma evalProgram_prefix:
  "\<forall>x \<in> set pre. passes (Eval x) \<Longrightarrow> \<exists>res'. evalProgram (pre @ ys) res = evalProgram ys res'"
proof (induction pre arbitrary: res)
  case Nil
  then show ?case by auto
next
  case (Cons x pre)
  from Cons.prems have "passes (Eval x)" by simp
  from passes_evalProgram[OF this, of "pre @ ys" res]
  obtain r1 where r1: "evalProgram (x # pre @ ys) res = evalProgram (pre @ ys) r1" by blast
  from Cons.prems have "\<forall>x \<in> set pre. passes (Eval x)" by simp
  from Cons.IH[OF this, of r1] r1 show ?case by auto
qed

lemma evalBlockStatements_prefix:
  "\<forall>x \<in> set pre. passes (Eval x) \<Longrightarrow>
     \<exists>res'. evalBlockStatements (pre @ ys) res = evalBlockStatements ys res'"
proof (induction pre arbitrary: res)
  case Nil
  then show ?case by auto
next
  case (Cons x pre)
  from Cons.prems have "passes (Eval x)" by simp
  from passes_evalBlockStatements[OF this, of "pre @ ys" res]
  obtain r1 where r1: "evalBlockStatements (x # pre @ ys) res = evalBlockStatements (pre @ ys) r1"
    by blast
  from Cons.prems have "\<forall>x \<in> set pre. passes (Eval x)" by simp
  from Cons.IH[OF this, of r1] r1 show ?case by auto
qed

section \<open>Equality and type mismatch (C1)\<close>

text \<open>
  C1, as stated, fails: \<^verbatim>\<open>evalInfixExpression\<close> tests \<^verbatim>\<open>op == "=="\<close> and
  \<^verbatim>\<open>op == "!="\<close> before it compares the type tags, so \<^verbatim>\<open>true == 1\<close> is an identity
  comparison of two different objects and yields the false singleton, not an Error.
\<close>

theorem C1_counterexample:
  "Eval (InfixExpression (tok EQ ''=='') (Boolean_ast (tok TRUE_tok ''true'') True) ''==''
          (IntLiteral (tok INT_tok ''1'') 1)) = Inr (Boolean False)
   \<and> Eval (InfixExpression (tok EQ ''=='') (Boolean_ast (tok TRUE_tok ''true'') True) ''==''
          (IntLiteral (tok INT_tok ''1'') 1)) \<noteq> Inr (Error ''type mismatch: BOOLEAN == INTEGER'')"
  by (simp add: eval_defs)

text \<open>
  C1, amended. When the two operands have different type tags, an infix operator other
  than \<^verbatim>\<open>==\<close> and \<^verbatim>\<open>!=\<close> yields the Error \<^verbatim>\<open>type mismatch: L op R\<close> with the two
  tags; \<^verbatim>\<open>==\<close> yields the false singleton and \<^verbatim>\<open>!=\<close> the true singleton. So
  \<^verbatim>\<open>true == true\<close> is the true singleton, \<^verbatim>\<open>true == 1\<close> is the false singleton, and
  \<^verbatim>\<open>true + 1\<close> is the Error \<^verbatim>\<open>type mismatch: BOOLEAN + INTEGER\<close>.
\<close>

theorem C1_infix_mixed_types:
  "(Type_obj l = Some lt \<and> Type_obj r = Some rt \<and> lt \<noteq> rt \<and> op \<noteq> ''=='' \<and> op \<noteq> ''!='' \<longrightarrow>
      evalInfixExpression op l r =
        Inr (Error (''type mismatch: '' @ lt @ '' '' @ op @ '' '' @ rt)))
   \<and> (Type_obj l = Some lt \<and> Type_obj r = Some rt \<and> lt \<noteq> rt \<longrightarrow>
      evalInfixExpression ''=='' l r = Inr (Boolean False) \<and>
      evalInfixExpression ''!='' l r = Inr (Boolean True))
   \<and> Eval (InfixExpression t (Boolean_ast t1 True) ''=='' (Boolean_ast t2 True)) = Inr (Boolean True)
   \<and> Eval (InfixExpression t (Boolean_ast t1 True) ''=='' (IntLiteral t2 1)) = Inr (Boolean False)
   \<and> Eval (InfixExpression t (Boolean_ast t1 True) ''+'' (IntLiteral t2 1)) =
       Inr (Error ''type mismatch: BOOLEAN + INTEGER'')"
  using evalInfixExpression_mismatch[of l lt r rt op] evalInfixExpression_equality_mixed[of l lt r rt]
  by (simp add: eval_defs)

theorem C1_infix_mixed_types_witness:
  "Type_obj (Boolean True) = Some BOOLEAN \<and> Type_obj (Integer 1) = Some INTEGER
   \<and> BOOLEAN \<noteq> INTEGER \<and> ''+'' \<noteq> ''=='' \<and> ''+'' \<noteq> ''!=''
   \<and> evalInfixExpression ''+'' (Boolean True) (Integer 1) =
       Inr (Error ''type mismatch: BOOLEAN + INTEGER'')
   \<and> evalInfixExpression ''=='' (Boolean True) (Integer 1) = Inr (Boolean False)
   \<and> evalInfixExpression ''!='' (Boolean True) (Integer 1) = Inr (Boolean True)"
  using C1_infix_mixed_types[of "Boolean True" BOOLEAN "Integer 1" INTEGER "''+''"]
  by (simp add: object_type_defs)

section \<open>Return through nested blocks (C2)\<close>

text \<open>
  C2. A statement that evaluates to a ReturnValue, reached after statements that let the
  loop go on, ends the sequence whatever follows it: the program-level loop returns the
  inner value, the block-level loop returns the ReturnValue still wrapped. So
  \<^verbatim>\<open>if (true) { if (true) { return 10; } return 1; }\<close> is 10 at program level, and its
  outer block yields the ReturnValue of 10.
\<close>

theorem C2_return_stops_sequence:
  "((\<forall>x \<in> set pre. passes (Eval x)) \<and> Eval s = Inr (ReturnValue v) \<longrightarrow>
      evalProgram (pre @ s # rest) res = Inr v
    \<and> evalBlockStatements (pre @ s # rest) res = Inr (ReturnValue v))
   \<and> Eval (Program [ExpressionStatement t1
        (IfExpression (Boolean_ast t2 True)
           (BlockStatement
              [ExpressionStatement t3
                 (IfExpression (Boolean_ast t4 True)
                    (BlockStatement [ReturnStatement t5 (IntLiteral t6 10)]) NilNode),
               ReturnStatement t7 (IntLiteral t8 1)])
           NilNode)]) = Inr (Integer 10)
   \<and> Eval (BlockStatement
              [ExpressionStatement t3
                 (IfExpression (Boolean_ast t4 True)
                    (BlockStatement [ReturnStatement t5 (IntLiteral t6 10)]) NilNode),
               ReturnStatement t7 (IntLiteral t8 1)]) = Inr (ReturnValue (Integer 10))"
proof (intro conjI impI)
  assume h: "(\<forall>x \<in> set pre. passes (Eval x)) \<and> Eval s = Inr (ReturnValue v)"
  with evalProgram_prefix[of pre "s # rest" res]
  show "evalProgram (pre @ s # rest) res = Inr v" by auto
  from h evalBlockStatements_prefix[of pre "s # rest" res]
  show "evalBlockStatements (pre @ s # rest) res = Inr (ReturnValue v)" by auto
qed (simp_all add: eval_defs)

theorem C2_return_stops_sequence_witness:
  "passes (Eval (ExpressionStatement (tok INT_tok ''5'') (IntLiteral (tok INT_tok ''5'') 5)))
   \<and> Eval (ReturnStatement (tok RETURN ''return'') (IntLiteral (tok INT_tok ''10'') 10)) =
       Inr (ReturnValue (Integer 10))
   \<and> evalProgram
       ([ExpressionStatement (tok INT_tok ''5'') (IntLiteral (tok INT_tok ''5'') 5)] @
        ReturnStatement (tok RETURN ''return'') (IntLiteral (tok INT_tok ''10'') 10) #
        [ExpressionStatement (tok INT_tok ''1'') (IntLiteral (tok INT_tok ''1'') 1)]) NilObject =
       Inr (Integer 10)
   \<and> evalBlockStatements
       ([ExpressionStatement (tok INT_tok ''5'') (IntLiteral (tok INT_tok ''5'') 5)] @
        ReturnStatement (tok RETURN ''return'') (IntLiteral (tok INT_tok ''10'') 10) #
        [ExpressionStatement (tok INT_tok ''1'') (IntLiteral (tok INT_tok ''1'') 1)]) NilObject =
       Inr (ReturnValue (Integer 10))"
  using C2_return_stops_sequence
    [of "[ExpressionStatement (tok INT_tok ''5'') (IntLiteral (tok INT_tok ''5'') 5)]"
        "ReturnStatement (tok RETURN ''return'') (IntLiteral (tok INT_tok ''10'') 10)"
        "Integer 10"
        "[ExpressionStatement (tok INT_tok ''1'') (IntLiteral (tok INT_tok ''1'') 1)]"
        NilObject]
  by (simp add: eval_defs)

section \<open>Errors end the evaluation (C3)\<close>

text \<open>
  C3. An infix expression evaluates its left operand first: when that is an Error (or a
  panic), it is the result whatever the right operand is, so the right operand is not
  evaluated. A statement that evaluates to an Error, reached after statements that let the
  loop go on, ends the sequence with that Error whatever follows. So the program
  \<^verbatim>\<open>5 + true; ...\<close> is the Error \<^verbatim>\<open>type mismatch: INTEGER + BOOLEAN\<close> for every
  continuation, \<^verbatim>\<open>10\<close> among them.
\<close>

theorem C3_error_short_circuit:
  "(Eval l = Inr (Error m) \<longrightarrow> Eval (InfixExpression t l op r) = Inr (Error m))
   \<and> (Eval l = Inl pn \<longrightarrow> Eval (InfixExpression t l op r) = Inl pn)
   \<and> ((\<forall>x \<in> set pre. passes (Eval x)) \<and> Eval s = Inr (Error m) \<longrightarrow>
         evalProgram (pre @ s # rest) res = Inr (Error m)
       \<and> evalBlockStatements (pre @ s # rest) res = Inr (Error m))
   \<and> Eval (Program (ExpressionStatement t1
                      (InfixExpression t2 (IntLiteral t3 5) ''+'' (Boolean_ast t4 True)) # rest))
       = Inr (Error ''type mismatch: INTEGER + BOOLEAN'')"
proof (intro conjI impI)
  assume "Eval l = Inr (Error m)"
  then show "Eval (InfixExpression t l op r) = Inr (Error m)" by (simp add: isError_def)
next
  assume "Eval l = Inl pn"
  then show "Eval (InfixExpression t l op r) = Inl pn" by simp
next
  assume h: "(\<forall>x \<in> set pre. passes (Eval x)) \<and> Eval s = Inr (Error m)"
  with evalProgram_prefix[of pre "s # rest" res]
  show "evalProgram (pre @ s # rest) res = Inr (Error m)" by auto
  from h evalBlockStatements_prefix[of pre "s # rest" res]
  show "evalBlockStatements (pre @ s # rest) res = Inr (Error m)" by auto
next
  show "Eval (Program (ExpressionStatement t1
                      (InfixExpression t2 (IntLiteral t3 5) ''+'' (Boolean_ast t4 True)) # rest))
       = Inr (Error ''type mismatch: INTEGER + BOOLEAN'')"
    by (simp add: eval_defs)
qed

text \<open>
  The witness takes \<^verbatim>\<open>5 + true\<close> as the left operand and as the statement, and the
  division \<^verbatim>\<open>1 / 0\<close>, which panics when it is evaluated, as the right operand and in the
  statement that follows.
\<close>

theorem C3_error_short_circuit_witness:
  "Eval (InfixExpression (tok PLUS ''+'') (IntLiteral (tok INT_tok ''5'') 5) ''+''
           (Boolean_ast (tok TRUE_tok ''true'') True)) =
     Inr (Error ''type mismatch: INTEGER + BOOLEAN'')
   \<and> Eval (InfixExpression (tok SLASH ''/'') (IntLiteral (tok INT_tok ''1'') 1) ''/''
           (IntLiteral (tok INT_tok ''0'') 0)) = Inl DivideByZero
   \<and> Eval (InfixExpression (tok PLUS ''+'')
        (InfixExpression (tok PLUS ''+'') (IntLiteral (tok INT_tok ''5'') 5) ''+''
           (Boolean_ast (tok TRUE_tok ''true'') True))
        ''+''
        (InfixExpression (tok SLASH ''/'') (IntLiteral (tok INT_tok ''1'') 1) ''/''
           (IntLiteral (tok INT_tok ''0'') 0))) =
     Inr (Error ''type mismatch: INTEGER + BOOLEAN'')
   \<and> Eval (InfixExpression (tok PLUS ''+'')
        (InfixExpression (tok SLASH ''/'') (IntLiteral (tok INT_tok ''1'') 1) ''/''
           (IntLiteral (tok INT_tok ''0'') 0))
        ''+''
        (IntLiteral (tok INT_tok ''5'') 5)) = Inl DivideByZero
   \<and> passes (Eval (ExpressionStatement (tok INT_tok ''5'') (IntLiteral (tok INT_tok ''5'') 5)))
   \<and> evalProgram
       ([ExpressionStatement (tok INT_tok ''5'') (IntLiteral (tok INT_tok ''5'') 5)] @
        ExpressionStatement (tok INT_tok ''5'')
          (InfixExpression (tok PLUS ''+'') (IntLiteral (tok INT_tok ''5'') 5) ''+''
             (Boolean_ast (tok TRUE_tok ''true'') True)) #
        [ExpressionStatement (tok INT_tok ''1'')
          (InfixExpression (tok SLASH ''/'') (IntLiteral (tok INT_tok ''1'') 1) ''/''
             (IntLiteral (tok INT_tok ''0'') 0))]) NilObject =
     Inr (Error ''type mismatch: INTEGER + BOOLEAN'')
   \<and> evalBlockStatements
       ([ExpressionStatement (tok INT_tok ''5'') (IntLiteral (tok INT_tok ''5'') 5)] @
        ExpressionStatement (tok INT_tok ''5'')
          (InfixExpression (tok PLUS ''+'') (IntLiteral (tok INT_tok ''5'') 5) ''+''
             (Boolean_ast (tok TRUE_tok ''true'') True)) #
        [ExpressionStatement (tok INT_tok ''1'')
          (InfixExpression (tok SLASH ''/'') (IntLiteral (tok INT_tok ''1'') 1) ''/''
             (IntLiteral (tok INT_tok ''0'') 0))]) NilObject =
     Inr (Error ''type mismatch: INTEGER + BOOLEAN'')"
  using
    C3_error_short_circuit
      [of "InfixExpression (tok PLUS ''+'') (IntLiteral (tok INT_tok ''5'') 5) ''+''
             (Boolean_ast (tok TRUE_tok ''true'') True)"
          "''type mismatch: INTEGER + BOOLEAN''" "tok PLUS ''+''" "''+''"
          "InfixExpression (tok SLASH ''/'') (IntLiteral (tok INT_tok ''1'') 1) ''/''
             (IntLiteral (tok INT_tok ''0'') 0)"
          DivideByZero
          "[ExpressionStatement (tok INT_tok ''5'') (IntLiteral (tok INT_tok ''5'') 5)]"
          "ExpressionStatement (tok INT_tok ''5'')
             (InfixExpression (tok PLUS ''+'') (IntLiteral (tok INT_tok ''5'') 5) ''+''
                (Boolean_ast (tok TRUE_tok ''true'') True))"
          "[ExpressionStatement (tok INT_tok ''1'')
             (InfixExpression (tok SLASH ''/'') (IntLiteral (tok INT_tok ''1'') 1) ''/''
                (IntLiteral (tok INT_tok ''0'') 0))]"
          NilObject]
    C3_error_short_circuit
      [of "InfixExpression (tok SLASH ''/'') (IntLiteral (tok INT_tok ''1'') 1) ''/''
             (IntLiteral (tok INT_tok ''0'') 0)"
          "''type mismatch: INTEGER + BOOLEAN''" "tok PLUS ''+''" "''+''"
          "IntLiteral (tok INT_tok ''5'') 5"
          DivideByZero]
  by (simp add: eval_defs)

section \<open>Truthiness (C4)\<close>

text \<open>
  C4. \<^verbatim>\<open>isTruthy\<close> is false on the Null singleton and on the false singleton and true
  on everything else, on every Integer in particular, whatever its value. So
  \<^verbatim>\<open>if (0) { 1 } else { 2 }\<close> is 1, as it is with any other integer for the condition.
\<close>

theorem C4_truthiness:
  "isTruthy obj = (obj \<noteq> Null \<and> obj \<noteq> Boolean False)
   \<and> isTruthy (Integer v)
   \<and> Eval (IfExpression (IntLiteral t1 0)
             (BlockStatement [ExpressionStatement t2 (IntLiteral t3 1)])
             (BlockStatement [ExpressionStatement t4 (IntLiteral t5 2)])) = Inr (Integer 1)
   \<and> Eval (IfExpression (IntLiteral t1 v)
             (BlockStatement [ExpressionStatement t2 (IntLiteral t3 1)])
             (BlockStatement [ExpressionStatement t4 (IntLiteral t5 2)])) = Inr (Integer 1)"
  by (cases obj rule: isTruthy.cases) (simp_all add: eval_defs)

section \<open>Integer arithmetic (C6)\<close>

text \<open>
  C6, as stated, fails at one pair of operands: the truncating quotient of \<open>- 2 ^ 63\<close> by
  \<open>- 1\<close> is \<open>2 ^ 63\<close>, which is no 64-bit signed integer; Go's division wraps it, and the
  evaluator yields the Integer \<open>- 2 ^ 63\<close>.
\<close>

theorem C6_counterexample:
  "evalInfixExpression ''/'' (Integer (- 9223372036854775808)) (Integer (- 1)) =
     Inr (Integer (- 9223372036854775808))
   \<and> sint (- 9223372036854775808 :: 64 word) = - 9223372036854775808
   \<and> truncating_quotient (sint (- 9223372036854775808 :: 64 word)) (sint (- 1 :: 64 word)) =
     9223372036854775808"
  by (simp add: evalInfixExpression_Integer truncating_quotient_def signed_divide_int_def)

text \<open>
  C6, amended. For all 64-bit signed integers \<open>a\<close> and \<open>b\<close> with \<open>b \<noteq> 0\<close>, other than
  \<open>a = - 2 ^ 63\<close> with \<open>b = - 1\<close>, evaluating \<^verbatim>\<open>a / b\<close> on two Integer operands yields the
  truncating quotient; for \<open>a = - 2 ^ 63\<close> and \<open>b = - 1\<close> it yields \<open>- 2 ^ 63\<close>. Evaluating
  \<^verbatim>\<open>a * b\<close>, \<^verbatim>\<open>a + b\<close> and \<^verbatim>\<open>a - b\<close> yields the product, sum and difference wrapped
  into the signed 64-bit range. Division by zero has no guard: it is Go's run-time panic,
  not an Error value.
\<close>

theorem C6_integer_arithmetic:
  "(b \<noteq> 0 \<and> \<not> (a = - (2 ^ 63) \<and> b = - 1) \<longrightarrow>
      (\<exists>q. evalInfixExpression ''/'' (Integer a) (Integer b) = Inr (Integer q)
           \<and> sint q = truncating_quotient (sint a) (sint b)))
   \<and> evalInfixExpression ''/'' (Integer (- (2 ^ 63))) (Integer (- 1)) = Inr (Integer (- (2 ^ 63)))
   \<and> (\<exists>q. evalInfixExpression ''*'' (Integer a) (Integer b) = Inr (Integer q)
           \<and> sint q = wrap64 (sint a * sint b))
   \<and> (\<exists>q. evalInfixExpression ''+'' (Integer a) (Integer b) = Inr (Integer q)
           \<and> sint q = wrap64 (sint a + sint b))
   \<and> (\<exists>q. evalInfixExpression ''-'' (Integer a) (Integer b) = Inr (Integer q)
           \<and> sint q = wrap64 (sint a - sint b))
   \<and> evalInfixExpression ''/'' (Integer a) (Integer 0) = Inl DivideByZero"
proof (intro conjI impI)
  assume "b \<noteq> 0 \<and> \<not> (a = - (2 ^ 63) \<and> b = - 1)"
  then show "\<exists>q. evalInfixExpression ''/'' (Integer a) (Integer b) = Inr (Integer q)
           \<and> sint q = truncating_quotient (sint a) (sint b)"
    using quotient_exact[of b a] by (simp add: evalInfixExpression_Integer)
next
  show "evalInfixExpression ''/'' (Integer (- (2 ^ 63))) (Integer (- 1)) =
        Inr (Integer (- (2 ^ 63)))"
    by (simp add: evalInfixExpression_Integer signed_divide_int_def)
qed (simp_all add: evalInfixExpression_Integer sint_arith)

text \<open>The witness: \<^verbatim>\<open>-7 / 2\<close> is \<open>-3\<close>, where flooring would give \<open>-4\<close>.\<close>

theorem C6_integer_arithmetic_witness:
  "(2 :: 64 word) \<noteq> 0 \<and> \<not> ((- 7 :: 64 word) = - (2 ^ 63) \<and> (2 :: 64 word) = - 1)
   \<and> evalInfixExpression ''/'' (Integer (- 7)) (Integer 2) = Inr (Integer (- 3))
   \<and> sint (- 3 :: 64 word) = truncating_quotient (sint (- 7 :: 64 word)) (sint (2 :: 64 word))
   \<and> truncating_quotient (- 7) 2 = - 3"
  using C6_integer_arithmetic[of 2 "- 7"]
  by (simp add: evalInfixExpression_Integer truncating_quotient_def signed_divide_int_def)

section \<open>Prefix operators (C8, C9)\<close>

text \<open>
  C8. Prefix \<^verbatim>\<open>!\<close> on a Boolean yields its negation; on an Integer it yields the true
  singleton for zero and the false singleton otherwise; on Null, an Error, a ReturnValue
  and the nil interface it yields the false singleton. Its result is always one of the two
  Boolean singletons, never an Error.
\<close>

theorem C8_bang_operator:
  "evalBangOperatorExpression (Boolean b) = Boolean (\<not> b)
   \<and> evalBangOperatorExpression (Integer 0) = Boolean True
   \<and> evalBangOperatorExpression (Integer v) = Boolean (v = 0)
   \<and> evalBangOperatorExpression Null = Boolean False
   \<and> evalBangOperatorExpression (Error m) = Boolean False
   \<and> evalBangOperatorExpression (ReturnValue obj) = Boolean False
   \<and> evalBangOperatorExpression NilObject = Boolean False
   \<and> (\<forall>x. \<exists>b'. evalBangOperatorExpression x = Boolean b')
   \<and> (\<forall>x. \<not> isError (evalBangOperatorExpression x))
   \<and> evalPrefixExpression ''!'' right = Inr (evalBangOperatorExpression right)"
proof -
  have b: "\<exists>b'. evalBangOperatorExpression x = Boolean b'" for x
    by (cases x) (auto simp: nativeBoolToObjBool_def)
  have e: "\<not> isError (evalBangOperatorExpression x)" for x
    using b[of x] by (auto simp: isError_def object_type_defs)
  show ?thesis
    using b e by (simp add: nativeBoolToObjBool_def evalPrefixExpression_def)
qed

text \<open>
  C9, as stated, fails at one operand: the numeric negation of \<open>- 2 ^ 63\<close> is \<open>2 ^ 63\<close>,
  which is no 64-bit signed integer; Go's negation wraps, and the evaluator yields the
  Integer \<open>- 2 ^ 63\<close> again.
\<close>

theorem C9_counterexample:
  "evalMinusPrefixOperatorExpression (Integer (- 9223372036854775808)) =
     Inr (Integer (- 9223372036854775808))
   \<and> sint (- 9223372036854775808 :: 64 word) = - 9223372036854775808
   \<and> - sint (- 9223372036854775808 :: 64 word) = (9223372036854775808 :: int)"
  by simp

text \<open>
  C9, amended. Prefix \<^verbatim>\<open>-\<close> yields an Integer exactly when its operand is an Integer, and
  the value is the operand's negation in signed 64-bit arithmetic: the numeric negation
  for every operand but \<open>- 2 ^ 63\<close>, which negates to itself. On a Boolean, Null, an Error
  and a ReturnValue it yields an Error with the message \<^verbatim>\<open>unsupported operator: -T\<close>,
  \<open>T\<close> the operand's type tag.
\<close>

theorem C9_minus_operator:
  "evalMinusPrefixOperatorExpression (Integer v) = Inr (Integer (- v))
   \<and> sint (- v) = wrap64 (- sint v)
   \<and> (v \<noteq> - (2 ^ 63) \<longrightarrow> sint (- v) = - sint v)
   \<and> evalMinusPrefixOperatorExpression (Boolean b) =
       Inr (Error (''unsupported operator: '' @ ''-'' @ BOOLEAN))
   \<and> evalMinusPrefixOperatorExpression Null =
       Inr (Error (''unsupported operator: '' @ ''-'' @ NULL_type))
   \<and> evalMinusPrefixOperatorExpression (Error m) =
       Inr (Error (''unsupported operator: '' @ ''-'' @ ERROR))
   \<and> evalMinusPrefixOperatorExpression (ReturnValue obj) =
       Inr (Error (''unsupported operator: '' @ ''-'' @ RETURN_VALUE))
   \<and> ((\<exists>w. evalMinusPrefixOperatorExpression x = Inr (Integer w)) = (\<exists>u. x = Integer u))
   \<and> evalPrefixExpression ''-'' x = evalMinusPrefixOperatorExpression x"
proof -
  have neg: "sint (- v) = - sint v" if "v \<noteq> - (2 ^ 63)"
  proof -
    have "sint v \<noteq> - (2 ^ 63)"
    proof
      assume "sint v = - (2 ^ 63)"
      then have "word_of_int (sint v) = (word_of_int (- (2 ^ 63)) :: 64 word)" by simp
      then have "v = - (2 ^ 63)" by simp
      with that show False by simp
    qed
    with sint64_range[of v] have "- (2 ^ 63) \<le> - sint v" "- sint v < 2 ^ 63" by auto
    from wrap64_id[OF this] show ?thesis by (simp add: sint_arith(4))
  qed
  have iff: "(\<exists>w. evalMinusPrefixOperatorExpression x = Inr (Integer w)) = (\<exists>u. x = Integer u)"
    by (cases x) (simp_all add: newError_def)
  show ?thesis
    using neg iff
    by (simp add: newError_def ErrUnsupportedOperatorPrefix_def evalPrefixExpression_def
        sint_arith(4))
qed

theorem C9_minus_operator_witness:
  "(5 :: 64 word) \<noteq> - (2 ^ 63)
   \<and> evalMinusPrefixOperatorExpression (Integer 5) = Inr (Integer (- 5))
   \<and> sint (- 5 :: 64 word) = - sint (5 :: 64 word)
   \<and> evalMinusPrefixOperatorExpression (Boolean True) = Inr (Error ''unsupported operator: -BOOLEAN'')"
  using C9_minus_operator[of 5 True]
  by (simp add: object_type_defs)

end
